theory Spec2Isabelle
  imports Complex_Main
begin

section \<open>Python values and errors\<close>

text \<open>
  The values the grid engine stores for an axis (\<open>set.params\<close>, the \<open>value\<close> handed to
  the param-add hook) are dynamically typed. \<open>PyNone\<close> is Python's \<open>None\<close>.
\<close>

datatype pyval = PyNone | PyBool bool | PyInt int | PyStr string

text \<open>
  Every \<open>raise RuntimeError(...)\<close> of the script is \<open>RuntimeError\<close> with its message;
  \<open>ValueError\<close>, \<open>TypeError\<close>, \<open>AttributeError\<close> and \<open>IndexError\<close> are the
  interpreter's own;
  \<open>BackendError\<close> is an exception raised inside the image-synthesis backend.
\<close>

datatype error =
    RuntimeError string
  | ValueError
  | TypeError
  | AttributeError
  | IndexError
  | BackendError string

text \<open>
  Builtins of the interpreter that the script calls and whose text is not part of the
  script: \<open>int(s)\<close> on a \<open>str\<close> (\<open>None\<close> where Python raises \<open>ValueError\<close>) and
  the \<open>repr\<close> of a list of strings as an f-string prints it.
\<close>

record python =
  int_of_str :: "string \<Rightarrow> int option"
  repr_list :: "string list \<Rightarrow> string"

text \<open>\<open>int(v)\<close>.\<close>

fun py_int :: "python \<Rightarrow> pyval \<Rightarrow> error + int" where
  "py_int py PyNone = Inl TypeError"
| "py_int py (PyBool b) = Inr (if b then 1 else 0)"
| "py_int py (PyInt n) = Inr n"
| "py_int py (PyStr s) = (case int_of_str py s of None \<Rightarrow> Inl ValueError | Some n \<Rightarrow> Inr n)"



section \<open>The generation request\<close>

text \<open>
  The processing object \<open>p\<close>. Attributes that the script probes with \<open>hasattr\<close> or
  \<open>getattr\<close> with a default, or that only the text-to-image request has, are options:
  \<open>None\<close> is an absent attribute. A seed of \<open>-1\<close> is the backend's unset seed.
\<close>

record request =
  prompt :: string
  negative_prompt :: string
  seed :: int
  subseed :: int
  steps :: int
  width :: int
  height :: int
  n_iter :: int
  batch_size :: int
  do_not_save_samples :: bool
  do_not_save_grid :: bool
  enable_hr :: "bool option"
  hr_second_pass_steps :: "int option"
  inf_grid_use_result_index :: "int option"
  inf_grid_out_width :: "int option"
  inf_grid_out_height :: "int option"
  outpath_grids :: string

section \<open>Strings\<close>

text \<open>
  The \<open>str\<close> methods the script uses. Characters are bytes here; \<open>strip()\<close> removes the
  ASCII white space (blank, tab, line feed, vertical tab, form feed, carriage return and
  the four separators \<open>0x1C\<close> to \<open>0x1F\<close>).
\<close>

definition py_isspace :: "char \<Rightarrow> bool" where
  "py_isspace c = (c \<in> set [CHR '' '', CHR 0x09, CHR 0x0A, CHR 0x0B, CHR 0x0C, CHR 0x0D,
                             CHR 0x1C, CHR 0x1D, CHR 0x1E, CHR 0x1F])"

definition py_strip :: "string \<Rightarrow> string" where
  "py_strip s = rev (dropWhile py_isspace (rev (dropWhile py_isspace s)))"

definition startswith :: "string \<Rightarrow> string \<Rightarrow> bool" where
  "startswith s sub = (take (length sub) s = sub)"

text \<open>\<open>sub in s\<close>.\<close>

fun py_in :: "string \<Rightarrow> string \<Rightarrow> bool" where
  "py_in sub [] = (sub = [])"
| "py_in sub (c # cs) = (startswith (c # cs) sub \<or> py_in sub cs)"

text \<open>
  \<open>s.replace(old, new)\<close>: the occurrences of \<open>old\<close> are found from the left and do not
  overlap; an empty \<open>old\<close> matches before every character and at the end. After a match
  at \<open>c # cs\<close> the scan goes on behind the match, \<open>length old - 1\<close> characters into
  \<open>cs\<close>.
\<close>

fun replace_from :: "string \<Rightarrow> string \<Rightarrow> string \<Rightarrow> string" where
  "replace_from old new [] = []"
| "replace_from old new (c # cs) =
     (if startswith (c # cs) old then new @ replace_from old new (drop (length old - 1) cs)
      else c # replace_from old new cs)"

definition py_replace :: "string \<Rightarrow> string \<Rightarrow> string \<Rightarrow> string" where
  "py_replace old new s =
     (if old = [] then new @ concat (map (\<lambda>c. c # new) s) else replace_from old new s)"

text \<open>\<open>s.split(sep)\<close> for a non-empty separator.\<close>

fun py_split :: "string \<Rightarrow> string \<Rightarrow> string list" where
  "py_split sep [] = [[]]"
| "py_split sep (c # cs) =
     (if startswith (c # cs) sep then [] # py_split sep (drop (length sep - 1) cs)
      else (case py_split sep cs of
              [] \<Rightarrow> [[c]]
            | w # ws \<Rightarrow> (c # w) # ws))"

text \<open>\<open>s.split(c, maxsplit=1)\<close> for a single character \<open>c\<close>.\<close>

definition py_split_once :: "char \<Rightarrow> string \<Rightarrow> string list" where
  "py_split_once c s =
     (if c \<in> set s then [takeWhile (\<lambda>x. x \<noteq> c) s, tl (dropWhile (\<lambda>x. x \<noteq> c) s)] else [s])"

text \<open>
  List subscripts, \<open>xs[i]\<close> and \<open>xs[i] = v\<close>. \<open>py_position\<close> is the place an index
  denotes in a list of the given length: itself when it is in range, counted back from
  the end when it is negative, and none when it is out of range on either side.
\<close>

definition py_position :: "nat \<Rightarrow> int \<Rightarrow> nat option" where
  "py_position len i =
     (if 0 \<le> i \<and> i < int len then Some (nat i)
      else if i < 0 \<and> - int len \<le> i then Some (nat (int len + i))
      else None)"

definition py_index :: "'a list \<Rightarrow> int \<Rightarrow> error + 'a" where
  "py_index xs i = (case py_position (length xs) i of None \<Rightarrow> Inl IndexError | Some k \<Rightarrow> Inr (xs ! k))"

definition py_setitem :: "'a list \<Rightarrow> int \<Rightarrow> 'a \<Rightarrow> error + 'a list" where
  "py_setitem xs i v =
     (case py_position (length xs) i of None \<Rightarrow> Inl IndexError | Some k \<Rightarrow> Inr (xs[k := v]))"

section \<open>Shared backend configuration and the backend\<close>

text \<open>
  \<open>opts\<close>: the four values of the process-wide configuration that the script writes.
\<close>

record shared_opts =
  code_former_weight :: real
  face_restoration_model :: "string option"
  sd_vae :: "string option"
  sd_model_checkpoint :: "string option"

text \<open>The result of a render: \<open>processed.images\<close> and \<open>processed.seed\<close>.\<close>

record 'img processed =
  images :: "'img list"
  processed_seed :: int

text \<open>
  What the script asks of the outside, in the order it asks: a render, the two reloads
  (each sees the identifier that shared configuration names when it is called), the
  creation of the output directory, and the image save handed to a new thread.
\<close>

datatype 'img event =
    ProcessImages request
  | ReloadModelWeights "string option"
  | ReloadVaeWeights "string option"
  | MakeDirs string
  | SaveImage 'img string string string string int

text \<open>
  The process state: the shared configuration, the backend's live catalogs (the titles of
  \<open>sd_models.checkpoints_list\<close>, the keys of \<open>sd_vae.vae_dict\<close>), the log of events,
  and the script's own globals \<open>Script.VALIDATE_REPLACE\<close> and \<open>has_inited\<close>.
\<close>

record 'img world =
  opts :: shared_opts
  checkpoints_list :: "string list"
  vae_dict :: "string list"
  calls :: "'img event list"
  VALIDATE_REPLACE :: bool
  has_inited :: bool

text \<open>
  The backend's functions, whose text is not part of the script. \<open>process_images\<close> reads
  and may change the shared configuration, and raises or returns; the others are
  functions of their arguments.
\<close>

record 'img backend =
  get_fixed_seed :: "int \<Rightarrow> int"
  process_images :: "request \<Rightarrow> shared_opts \<Rightarrow> (error + 'img processed) \<times> shared_opts"
  is_ndarray :: "'img \<Rightarrow> bool"
  fromarray :: "'img \<Rightarrow> 'img"
  resize :: "'img \<Rightarrow> int \<times> int \<Rightarrow> 'img"
  create_infotext :: "request \<Rightarrow> shared_opts \<Rightarrow> string"
  Processed :: "request \<Rightarrow> 'img list \<Rightarrow> 'img processed"

definition reload_model_weights :: "'img world \<Rightarrow> 'img world" where
  "reload_model_weights w = w\<lparr>calls := calls w @ [ReloadModelWeights (sd_model_checkpoint (opts w))]\<rparr>"

definition reload_vae_weights :: "'img world \<Rightarrow> 'img world" where
  "reload_vae_weights w = w\<lparr>calls := calls w @ [ReloadVaeWeights (sd_vae (opts w))]\<rparr>"

text \<open>
  The helpers imported from \<open>gridgencore\<close>, the grid engine, whose text is not part of
  the script.
\<close>

record gridgencore =
  clean_name :: "string \<Rightarrow> string"
  clean_mode :: "string \<Rightarrow> string"
  get_best_in_list :: "string \<Rightarrow> string list \<Rightarrow> string option"
  choose_better_file_name :: "string \<Rightarrow> string \<Rightarrow> string"

section \<open>Value mode helpers\<close>

definition get_model_for :: "gridgencore \<Rightarrow> 'img world \<Rightarrow> string \<Rightarrow> string option" where
  "get_model_for core w name = get_best_in_list core name (checkpoints_list w)"

definition apply_model :: "gridgencore \<Rightarrow> string \<Rightarrow> 'img world \<Rightarrow> 'img world" where
  "apply_model core v w =
     reload_model_weights (w\<lparr>opts := (opts w)\<lparr>sd_model_checkpoint := get_model_for core w v\<rparr>\<rparr>)"

definition clean_model :: "python \<Rightarrow> gridgencore \<Rightarrow> 'img world \<Rightarrow> string \<Rightarrow> string \<Rightarrow> error + string" where
  "clean_model py core w p v =
     (case get_model_for core w v of
        None \<Rightarrow> Inl (RuntimeError (''Invalid parameter '' @ [CHR 0x27] @ p @ [CHR 0x27] @ '' as ''
                  @ [CHR 0x27] @ v @ [CHR 0x27] @ '': model name unrecognized - valid ''
                  @ repr_list py (checkpoints_list w)))
      | Some actual_model \<Rightarrow> Inr (choose_better_file_name core v actual_model))"

definition get_vae_for :: "gridgencore \<Rightarrow> 'img world \<Rightarrow> string \<Rightarrow> string option" where
  "get_vae_for core w name = get_best_in_list core name (vae_dict w)"

definition apply_vae :: "gridgencore \<Rightarrow> string \<Rightarrow> 'img world \<Rightarrow> 'img world" where
  "apply_vae core v w =
     (let vae_name = clean_name core v;
          vae_name1 =
            (if vae_name = ''none'' then Some ''None''
             else if vae_name \<in> set [''auto'', ''automatic''] then Some ''Automatic''
             else get_vae_for core w vae_name)
      in reload_vae_weights (w\<lparr>opts := (opts w)\<lparr>sd_vae := vae_name1\<rparr>\<rparr>))"

definition clean_vae :: "python \<Rightarrow> gridgencore \<Rightarrow> 'img world \<Rightarrow> string \<Rightarrow> string \<Rightarrow> error + string" where
  "clean_vae py core w p v =
     (let vae_name = clean_name core v in
      if vae_name \<in> set [''none'', ''auto'', ''automatic''] then Inr vae_name
      else (case get_vae_for core w vae_name of
              None \<Rightarrow> Inl (RuntimeError (''Invalid parameter '' @ [CHR 0x27] @ p @ [CHR 0x27] @ '' as ''
                        @ [CHR 0x27] @ v @ [CHR 0x27] @ '': VAE name unrecognized - valid: ''
                        @ repr_list py (vae_dict w)))
            | Some actual_vae \<Rightarrow> Inr (choose_better_file_name core v actual_vae)))"

text \<open>
  \<open>apply_prompt_replace(p, v)\<close>. The loop runs once for every part of \<open>v\<close> between
  \<open>&&\<close>, and in each round splits \<open>v\<close> itself at its first \<open>=\<close>. The request is
  changed in place, so a round that raises leaves the earlier rounds' changes.
\<close>

fun prompt_replace_loop :: "bool \<Rightarrow> string \<Rightarrow> string list \<Rightarrow> request \<Rightarrow> error option \<times> request" where
  "prompt_replace_loop validate v [] p = (None, p)"
| "prompt_replace_loop validate v (replacementInstruction # rest) p =
     (let val = py_split_once CHR ''='' v in
      if length val \<noteq> 2 then
        (Some (RuntimeError (''Invalid prompt replace, missing '' @ [CHR 0x27] @ ''='' @ [CHR 0x27]
           @ '' symbol, for '' @ [CHR 0x27] @ replacementInstruction @ [CHR 0x27])), p)
      else
        let match = py_strip (val ! 0); replace = py_strip (val ! 1) in
        if validate \<and> \<not> py_in match (prompt p) \<and> \<not> py_in match (negative_prompt p) then
          (Some (RuntimeError (''Invalid prompt replace, '' @ [CHR 0x27] @ match @ [CHR 0x27]
             @ '' is not in prompt '' @ [CHR 0x27] @ prompt p @ [CHR 0x27]
             @ '' nor negative prompt '' @ [CHR 0x27] @ negative_prompt p @ [CHR 0x27])), p)
        else
          prompt_replace_loop validate v rest
            (p\<lparr>prompt := py_replace match replace (prompt p),
               negative_prompt := py_replace match replace (negative_prompt p)\<rparr>))"

fun apply_prompt_replace :: "bool \<Rightarrow> request \<Rightarrow> pyval \<Rightarrow> error option \<times> request" where
  "apply_prompt_replace validate p (PyStr v) =
     prompt_replace_loop validate v (map py_strip (py_split ''&&'' v)) p"
| "apply_prompt_replace validate p v = (Some AttributeError, p)"

section \<open>Execution hooks\<close>

text \<open>
  The grid (\<open>grid_call.grid\<close>, \<open>grid_runner.grid\<close>) is one object shared by all
  coordinates, so the hooks take it and give it back beside the coordinate's own
  \<open>SingleGridCall\<close>.
\<close>

record grid =
  min_width :: "int option"
  min_height :: "int option"
  initial_p :: request
  format :: string

record single_grid_call =
  replacements :: "pyval list"
  params :: "string \<rightharpoonup> pyval"
  data :: string
  filepath :: string

definition a1111_grid_call_init_hook :: "single_grid_call \<Rightarrow> single_grid_call" where
  "a1111_grid_call_init_hook grid_call = grid_call\<lparr>replacements := []\<rparr>"

text \<open>\<open>grid_call.grid.min_width or 99999\<close>: \<open>None\<close> and \<open>0\<close> are both falsy.\<close>

definition or_99999 :: "int option \<Rightarrow> int" where
  "or_99999 m = (case m of None \<Rightarrow> 99999 | Some x \<Rightarrow> if x \<noteq> 0 then x else 99999)"

definition a1111_grid_call_param_add_hook ::
  "python \<Rightarrow> gridgencore \<Rightarrow> string \<Rightarrow> pyval \<Rightarrow> grid \<times> single_grid_call
     \<Rightarrow> (error + bool) \<times> grid \<times> single_grid_call" where
  "a1111_grid_call_param_add_hook py core param val = (\<lambda>(g, grid_call).
     let g1 = (if min_width g = None then g\<lparr>min_width := Some (width (initial_p g))\<rparr> else g);
         g2 = (if min_height g1 = None then g1\<lparr>min_height := Some (height (initial_p g1))\<rparr> else g1);
         cleaned = clean_mode core param
     in if cleaned = ''promptreplace'' then
          (Inr True, g2, grid_call\<lparr>replacements := replacements grid_call @ [val]\<rparr>)
        else if cleaned \<in> set [''width'', ''outwidth''] then
          (case py_int py val of
             Inl e \<Rightarrow> (Inl e, g2, grid_call)
           | Inr n \<Rightarrow> (Inr False, g2\<lparr>min_width := Some (min (or_99999 (min_width g2)) n)\<rparr>, grid_call))
        else if cleaned \<in> set [''height'', ''outheight''] then
          (case py_int py val of
             Inl e \<Rightarrow> (Inl e, g2, grid_call)
           | Inr n \<Rightarrow> (Inr False, g2\<lparr>min_height := Some (min (or_99999 (min_height g2)) n)\<rparr>, grid_call))
        else (Inr False, g2, grid_call))"

text \<open>
  \<open>a1111_grid_call_apply_hook(grid_call, param, dry)\<close>: the second argument is the
  request the engine passes. The first replacement that raises ends the loop.
\<close>

fun apply_replacements :: "bool \<Rightarrow> pyval list \<Rightarrow> request \<Rightarrow> error option \<times> request" where
  "apply_replacements validate [] p = (None, p)"
| "apply_replacements validate (r # rs) p =
     (case apply_prompt_replace validate p r of
        (Some e, p') \<Rightarrow> (Some e, p')
      | (None, p') \<Rightarrow> apply_replacements validate rs p')"

definition a1111_grid_call_apply_hook ::
  "single_grid_call \<Rightarrow> request \<Rightarrow> bool \<Rightarrow> 'img world \<Rightarrow> error option \<times> request" where
  "a1111_grid_call_apply_hook grid_call p dry w =
     apply_replacements (VALIDATE_REPLACE w) (replacements grid_call) p"

text \<open>\<open>TempHolder\<close> and the runner's \<open>temp\<close> attribute (\<open>None\<close> outside a coordinate).\<close>

record temp_holder =
  old_codeformer_weight :: real
  old_face_restorer :: "string option"
  old_vae :: "string option"
  old_model :: "string option"

record grid_runner =
  temp :: "temp_holder option"

definition a1111_grid_runner_pre_dry_hook :: "grid_runner \<Rightarrow> 'img world \<Rightarrow> grid_runner" where
  "a1111_grid_runner_pre_dry_hook runner w =
     runner\<lparr>temp := Some \<lparr>old_codeformer_weight = code_former_weight (opts w),
                           old_face_restorer = face_restoration_model (opts w),
                           old_vae = sd_vae (opts w),
                           old_model = sd_model_checkpoint (opts w)\<rparr>\<rparr>"

definition zero_images_error :: "single_grid_call \<Rightarrow> error" where
  "zero_images_error s =
     RuntimeError (''Something went wrong! Image gen '' @ [CHR 0x27] @ data s @ [CHR 0x27]
       @ '' produced 0 images, which is wrong'')"

text \<open>
  \<open>a1111_grid_runner_post_dry_hook(grid_runner, p, set)\<close>. The result is what the hook
  returns or raises, with the runner, the request and the process state as it leaves
  them.
\<close>

definition a1111_grid_runner_post_dry_hook ::
  "'img backend \<Rightarrow> grid \<Rightarrow> grid_runner \<Rightarrow> request \<Rightarrow> single_grid_call \<Rightarrow> 'img world
     \<Rightarrow> (error + 'img processed) \<times> grid_runner \<times> request \<times> 'img world" where
  "a1111_grid_runner_post_dry_hook be g runner p s w =
     (let p1 = p\<lparr>seed := get_fixed_seed be (seed p)\<rparr>;
          p2 = p1\<lparr>subseed := get_fixed_seed be (subseed p1)\<rparr>;
          w1 = w\<lparr>calls := calls w @ [ProcessImages p2]\<rparr>
      in case process_images be p2 (opts w1) of
           (Inl e, o1) \<Rightarrow> (Inl e, runner, p2, w1\<lparr>opts := o1\<rparr>)
         | (Inr processed, o1) \<Rightarrow>
            (let w2 = w1\<lparr>opts := o1\<rparr> in
             if length (images processed) < 1 then (Inl (zero_images_error s), runner, p2, w2)
             else
              (let w3 = w2\<lparr>calls := calls w2 @ [MakeDirs (filepath s)]\<rparr>;
                   result_index0 = (case inf_grid_use_result_index p2 of None \<Rightarrow> 0 | Some i \<Rightarrow> i);
                   result_index =
                     (if result_index0 \<ge> int (length (images processed))
                      then int (length (images processed)) - 1 else result_index0)
               in case py_index (images processed) result_index of
                    Inl e \<Rightarrow> (Inl e, runner, p2, w3)
                  | Inr img0 \<Rightarrow>
                     (let img1 = (if is_ndarray be img0 then fromarray be img0 else img0);
                          img2 = (case (inf_grid_out_width p2, inf_grid_out_height p2) of
                                    (Some ow, Some oh) \<Rightarrow> resize be img1 (ow, oh)
                                  | _ \<Rightarrow> img1)
                      in case py_setitem (images processed) result_index img2 of
                           Inl e \<Rightarrow> (Inl e, runner, p2, w3)
                         | Inr images1 \<Rightarrow>
                            (let processed1 = processed\<lparr>images := images1\<rparr>;
                                 info = create_infotext be p2 (opts w3);
                                 w4 = w3\<lparr>calls := calls w3 @
                                        [SaveImage img2 (filepath s) info (format g) (prompt p2)
                                           (processed_seed processed1)]\<rparr>
                             in case temp runner of
                                  None \<Rightarrow> (Inl AttributeError, runner, p2, w4)
                                | Some t \<Rightarrow>
                                    (Inr processed1, runner\<lparr>temp := None\<rparr>, p2,
                                     w4\<lparr>opts := (opts w4)\<lparr>
                                          code_former_weight := old_codeformer_weight t,
                                          face_restoration_model := old_face_restorer t,
                                          sd_vae := old_vae t,
                                          sd_model_checkpoint := old_model t\<rparr>\<rparr>))))))"

section \<open>Step-count estimation\<close>






section \<open>The whole-run guard\<close>

record settings_fixer =
  fixer_model :: "string option"
  fixer_code_former_weight :: real
  fixer_face_restoration_model :: "string option"
  fixer_vae :: "string option"

definition SettingsFixer_enter :: "'img world \<Rightarrow> settings_fixer" where
  "SettingsFixer_enter w =
     \<lparr>fixer_model = sd_model_checkpoint (opts w),
      fixer_code_former_weight = code_former_weight (opts w),
      fixer_face_restoration_model = face_restoration_model (opts w),
      fixer_vae = sd_vae (opts w)\<rparr>"

definition SettingsFixer_exit :: "settings_fixer \<Rightarrow> 'img world \<Rightarrow> 'img world" where
  "SettingsFixer_exit self w =
     reload_vae_weights (reload_model_weights
       (w\<lparr>opts := (opts w)\<lparr>
            code_former_weight := fixer_code_former_weight self,
            face_restoration_model := fixer_face_restoration_model self,
            sd_vae := fixer_vae self,
            sd_model_checkpoint := fixer_model self\<rparr>\<rparr>))"

text \<open>
  \<open>with SettingsFixer(): body\<close>. \<open>__exit__\<close> runs whether the body returns or raises,
  and returns \<open>None\<close>, so what the body raised is raised again after it.
\<close>

definition with_SettingsFixer ::
  "('img world \<Rightarrow> (error + 'a) \<times> 'img world) \<Rightarrow> 'img world \<Rightarrow> (error + 'a) \<times> 'img world" where
  "with_SettingsFixer body w =
     (let self = SettingsFixer_enter w in
      case body w of (r, w1) \<Rightarrow> (r, SettingsFixer_exit self w1))"

section \<open>The script entry point\<close>

record run_args =
  do_overwrite :: bool
  generate_page :: bool
  dry_run :: bool
  validate_replace :: bool
  publish_gen_metadata :: bool
  grid_file :: string
  fast_skip :: bool
  output_file_path :: "string option"
  skip_invalid :: bool
  manual_axes :: "string list"

text \<open>
  \<open>try_init()\<close> sets \<open>has_inited\<close>; the hooks and modes it registers live in the engine.
\<close>

definition try_init :: "'img world \<Rightarrow> 'img world" where
  "try_init w = (if has_inited w then w else w\<lparr>has_inited := True\<rparr>)"

text \<open>
  \<open>Script.run\<close>. The engine's \<open>run_grid_gen\<close> is a parameter: it is given the request,
  the arguments and the manual axes (\<open>None\<close> for a grid file), and raises or returns a
  result or \<open>None\<close>. \<open>'..' in output_file_path\<close> raises \<open>TypeError\<close> on \<open>None\<close>.
\<close>

definition run ::
  "'img backend
     \<Rightarrow> (request \<Rightarrow> run_args \<Rightarrow> string list option \<Rightarrow> 'img world
           \<Rightarrow> (error + 'img processed option) \<times> 'img world)
     \<Rightarrow> request \<Rightarrow> run_args \<Rightarrow> 'img world \<Rightarrow> (error + 'img processed) \<times> 'img world" where
  "run be run_grid_gen p0 args w0 =
     (let w1 = try_init w0;
          p1 = p0\<lparr>n_iter := 1, batch_size := 1, do_not_save_samples := True,
                  do_not_save_grid := True\<rparr>;
          p = p1\<lparr>seed := get_fixed_seed be (seed p1)\<rparr>;
          w = w1\<lparr>VALIDATE_REPLACE := validate_replace args\<rparr>
      in if py_in ''..'' (grid_file args) \<or> grid_file args = [] then
           (Inl (RuntimeError (''Unacceptable filename '' @ [CHR 0x27] @ grid_file args @ [CHR 0x27])), w)
         else case output_file_path args of
           None \<Rightarrow> (Inl TypeError, w)
         | Some path \<Rightarrow>
            (if py_in ''..'' path then
               (Inl (RuntimeError (''Unacceptable alt file path '' @ [CHR 0x27] @ path @ [CHR 0x27])), w)
             else if grid_file args = ''Create in UI'' \<and> path = [] then
               (Inl (RuntimeError ''Must specify the output file path''), w)
             else
              (let axes = (if grid_file args = ''Create in UI'' then Some (manual_axes args) else None)
               in case with_SettingsFixer (run_grid_gen p args axes) w of
                    (Inl e, w2) \<Rightarrow> (Inl e, w2)
                  | (Inr None, w2) \<Rightarrow> (Inr (Processed be p []), w2)
                  | (Inr (Some result), w2) \<Rightarrow> (Inr result, w2))))"

section \<open>Notions of the specification\<close>

text \<open>The requests the backend was asked to render, in order, read off the event log.\<close>

fun renders :: "'img event list \<Rightarrow> request list" where
  "renders [] = []"
| "renders (ProcessImages q # es) = q # renders es"
| "renders (e # es) = renders es"

text \<open>
  The request the post-dry hook renders: the coordinate's request with both seeds passed
  through the backend's \<open>get_fixed_seed\<close>.
\<close>

definition fixed_seeds :: "'img backend \<Rightarrow> request \<Rightarrow> request" where
  "fixed_seeds be p = p\<lparr>seed := get_fixed_seed be (seed p), subseed := get_fixed_seed be (subseed p)\<rparr>"

text \<open>
  The configured result index (\<open>getattr(p, 'inf_grid_use_result_index', 0)\<close>), and what
  becomes of the selected image before it is saved: an array is converted, and the image
  is resized when both output dimensions are set.
\<close>

definition configured_result_index :: "request \<Rightarrow> int" where
  "configured_result_index p = (case inf_grid_use_result_index p of None \<Rightarrow> 0 | Some i \<Rightarrow> i)"

definition finished_image :: "'img backend \<Rightarrow> request \<Rightarrow> 'img \<Rightarrow> 'img" where
  "finished_image be p img0 =
     (let img1 = (if is_ndarray be img0 then fromarray be img0 else img0)
      in case (inf_grid_out_width p, inf_grid_out_height p) of
           (Some ow, Some oh) \<Rightarrow> resize be img1 (ow, oh)
         | _ \<Rightarrow> img1)"

text \<open>
  A text substitution as the specification describes it: a recorded instruction
  \<open>match=replace\<close> stands for its match text and its replace text (the parts before and
  after the first \<open>=\<close>, without the white space around them), and is applied by
  replacing the match text literally in the primary and in the negative prompt.
\<close>

definition substitution_of :: "string \<Rightarrow> (string \<times> string) option" where
  "substitution_of v =
     (if CHR ''='' \<in> set v
      then Some (py_strip (takeWhile (\<lambda>x. x \<noteq> CHR ''='') v),
                 py_strip (tl (dropWhile (\<lambda>x. x \<noteq> CHR ''='') v)))
      else None)"

definition substitute :: "string \<Rightarrow> string \<Rightarrow> request \<Rightarrow> request" where
  "substitute match replace p =
     p\<lparr>prompt := py_replace match replace (prompt p),
       negative_prompt := py_replace match replace (negative_prompt p)\<rparr>"

text \<open>
  Replaying recorded instructions in their order. With validation on, an instruction
  whose match text is in neither prompt stops the replay with an error, and so does an
  instruction without \<open>=\<close>; the substitutions made before it stay.
\<close>

fun replay :: "bool \<Rightarrow> string list \<Rightarrow> request \<Rightarrow> error option \<times> request" where
  "replay validate [] p = (None, p)"
| "replay validate (v # vs) p =
     (case substitution_of v of
        None \<Rightarrow> (Some (RuntimeError (''Invalid prompt replace, missing '' @ [CHR 0x27] @ ''=''
                    @ [CHR 0x27] @ '' symbol, for '' @ [CHR 0x27] @ py_strip v @ [CHR 0x27])), p)
      | Some (match, replace) \<Rightarrow>
          if validate \<and> \<not> py_in match (prompt p) \<and> \<not> py_in match (negative_prompt p) then
            (Some (RuntimeError (''Invalid prompt replace, '' @ [CHR 0x27] @ match @ [CHR 0x27]
               @ '' is not in prompt '' @ [CHR 0x27] @ prompt p @ [CHR 0x27]
               @ '' nor negative prompt '' @ [CHR 0x27] @ negative_prompt p @ [CHR 0x27])), p)
          else replay validate vs (substitute match replace p))"

text \<open>Replaying without any check, as the specification's sentence reads.\<close>

fun replay_all :: "string list \<Rightarrow> request \<Rightarrow> request" where
  "replay_all [] p = p"
| "replay_all (v # vs) p =
     (case substitution_of v of
        None \<Rightarrow> replay_all vs p
      | Some (match, replace) \<Rightarrow> replay_all vs (substitute match replace p))"

section \<open>Concrete instances for the examples\<close>

text \<open>
  Instances of the parameters on which the examples are evaluated. The engine's name
  cleaners are instantiated for names already in lower case (blanks and brackets are
  removed, and underscores for a mode name); the list search takes the first entry
  whose cleaned name equals the cleaned name searched, else the first that contains it.
\<close>

fun demo_repr_items :: "string list \<Rightarrow> string" where
  "demo_repr_items [] = []"
| "demo_repr_items [x] = [CHR 0x27] @ x @ [CHR 0x27]"
| "demo_repr_items (x # y # ys) = [CHR 0x27] @ x @ [CHR 0x27] @ '', '' @ demo_repr_items (y # ys)"

definition demo_python :: python where
  "demo_python = \<lparr>int_of_str = (\<lambda>s. None), repr_list = (\<lambda>xs. ''['' @ demo_repr_items xs @ '']'')\<rparr>"

definition demo_clean_name :: "string \<Rightarrow> string" where
  "demo_clean_name s = filter (\<lambda>c. c \<notin> set '' []'') s"

definition demo_get_best_in_list :: "string \<Rightarrow> string list \<Rightarrow> string option" where
  "demo_get_best_in_list name xs =
     (case filter (\<lambda>x. demo_clean_name x = demo_clean_name name) xs of
        x # _ \<Rightarrow> Some x
      | [] \<Rightarrow> (case filter (\<lambda>x. py_in (demo_clean_name name) (demo_clean_name x)) xs of
                 x # _ \<Rightarrow> Some x
               | [] \<Rightarrow> None))"

definition demo_core :: gridgencore where
  "demo_core =
     \<lparr>clean_name = demo_clean_name,
      clean_mode = (\<lambda>s. filter (\<lambda>c. c \<noteq> CHR ''_'') (demo_clean_name s)),
      get_best_in_list = demo_get_best_in_list,
      choose_better_file_name = (\<lambda>raw full. if length raw \<ge> length full then raw else full)\<rparr>"

definition demo_request :: request where
  "demo_request =
     \<lparr>prompt = ''a cat sits'', negative_prompt = ''blurry'', seed = -1, subseed = -1,
      steps = 20, width = 512, height = 512, n_iter = 4, batch_size = 2,
      do_not_save_samples = False, do_not_save_grid = False,
      enable_hr = Some False, hr_second_pass_steps = Some 0,
      inf_grid_use_result_index = None, inf_grid_out_width = None,
      inf_grid_out_height = None, outpath_grids = ''grids''\<rparr>"

definition demo_opts :: shared_opts where
  "demo_opts =
     \<lparr>code_former_weight = 1 / 2, face_restoration_model = Some ''CodeFormer'',
      sd_vae = Some ''Automatic'', sd_model_checkpoint = Some ''A''\<rparr>"

definition demo_world :: "nat world" where
  "demo_world =
     \<lparr>opts = demo_opts, checkpoints_list = [''A'', ''B''], vae_dict = [],
      calls = [], VALIDATE_REPLACE = True, has_inited = True\<rparr>"

text \<open>
  A backend that renders the images it is set up with (\<open>10\<close> and \<open>20\<close> in the
  examples, or none), leaves the shared configuration alone and fixes an unset seed to
  \<open>42\<close>.
\<close>

definition demo_backend :: "nat list \<Rightarrow> nat backend" where
  "demo_backend imgs =
     \<lparr>get_fixed_seed = (\<lambda>s. if s = -1 then 42 else s),
      process_images = (\<lambda>q o1. (Inr \<lparr>images = imgs, processed_seed = seed q\<rparr>, o1)),
      is_ndarray = (\<lambda>i. False),
      fromarray = (\<lambda>i. i),
      resize = (\<lambda>i wh. i),
      create_infotext = (\<lambda>q o1. prompt q),
      Processed = (\<lambda>q is. \<lparr>images = is, processed_seed = -1\<rparr>)\<rparr>"

definition demo_grid :: grid where
  "demo_grid = \<lparr>min_width = None, min_height = None, initial_p = demo_request, format = ''png''\<rparr>"

definition demo_call :: single_grid_call where
  "demo_call = \<lparr>replacements = [], params = Map.empty, data = ''cell'', filepath = ''out/cell''\<rparr>"

definition demo_runner :: grid_runner where
  "demo_runner = \<lparr>temp = None\<rparr>"

definition demo_args :: run_args where
  "demo_args =
     \<lparr>do_overwrite = False, generate_page = True, dry_run = False, validate_replace = True,
      publish_gen_metadata = True, grid_file = ''Create in UI'', fast_skip = False,
      output_file_path = Some ''out'', skip_invalid = False, manual_axes = []\<rparr>"

text \<open>
  A grid run of one coordinate, standing for the engine: the coordinate's Model axis
  applies checkpoint \<open>B\<close>, then the post-dry hook renders; what the hook raises ends the
  run.
\<close>

definition demo_run_grid_gen ::
  "nat list \<Rightarrow> request \<Rightarrow> run_args \<Rightarrow> string list option \<Rightarrow> nat world
     \<Rightarrow> (error + nat processed option) \<times> nat world" where
  "demo_run_grid_gen imgs p args axes w =
     (let runner = a1111_grid_runner_pre_dry_hook demo_runner w;
          w1 = apply_model demo_core ''B'' w
      in case a1111_grid_runner_post_dry_hook (demo_backend imgs) demo_grid runner p demo_call w1 of
           (Inl e, runner1, p1, w2) \<Rightarrow> (Inl e, w2)
         | (Inr r, runner1, p1, w2) \<Rightarrow> (Inr (Some r), w2))"

section \<open>Properties\<close>





subsection \<open>The whole-run guard\<close>

text \<open>
  Claim C2. Whatever the guarded body does and however it ends (it returns or it raises,
  \<open>fst (body w)\<close> either way), the guard passes that outcome on, leaves the shared
  configuration with all four values as they were at scope entry, and after the body's
  events asks the backend for the model reload and the VAE reload, each of which sees
  the restored identifier.
\<close>

theorem whole_run_guard_restores:
  "fst (with_SettingsFixer body w) = fst (body w)
   \<and> opts (snd (with_SettingsFixer body w)) = opts w
   \<and> calls (snd (with_SettingsFixer body w)) =
       calls (snd (body w)) @ [ReloadModelWeights (sd_model_checkpoint (opts w)),
                               ReloadVaeWeights (sd_vae (opts w))]"
  by (cases "body w")
     (simp add: with_SettingsFixer_def SettingsFixer_exit_def SettingsFixer_enter_def
       reload_model_weights_def reload_vae_weights_def)

subsection \<open>Model and VAE modes\<close>

text \<open>
  Claim C9. Applying the Model mode leaves the resolved checkpoint in shared
  configuration and adds one event, the model reload, which sees that checkpoint;
  applying the VAE mode leaves the resolved VAE (\<open>None\<close> and \<open>Automatic\<close> for the three
  reserved names, else the catalog's best match) and adds the VAE reload, which sees it.
\<close>

theorem apply_model_vae_reload:
  "sd_model_checkpoint (opts (apply_model core v w)) = get_model_for core w v
   \<and> calls (apply_model core v w) = calls w @ [ReloadModelWeights (get_model_for core w v)]
   \<and> sd_vae (opts (apply_vae core v w)) =
       (if clean_name core v = ''none'' then Some ''None''
        else if clean_name core v = ''auto'' \<or> clean_name core v = ''automatic'' then Some ''Automatic''
        else get_vae_for core w (clean_name core v))
   \<and> calls (apply_vae core v w) = calls w @ [ReloadVaeWeights (sd_vae (opts (apply_vae core v w)))]"
  by (simp add: apply_model_def apply_vae_def reload_model_weights_def reload_vae_weights_def
      get_model_for_def get_vae_for_def Let_def)

text \<open>
  On the example state, the Model axis value \<open>B\<close> is written and then reloaded; the VAE
  axis value \<open>auto\<close> becomes \<open>Automatic\<close>.
\<close>

theorem apply_model_vae_reload_witness:
  "sd_model_checkpoint (opts (apply_model demo_core ''B'' demo_world)) = Some ''B''
   \<and> calls (apply_model demo_core ''B'' demo_world) = [ReloadModelWeights (Some ''B'')]
   \<and> sd_vae (opts (apply_vae demo_core ''auto'' demo_world)) = Some ''Automatic''
   \<and> calls (apply_vae demo_core ''auto'' demo_world) = [ReloadVaeWeights (Some ''Automatic'')]"
  using apply_model_vae_reload [where core = demo_core and v = "''B''" and w = demo_world]
    apply_model_vae_reload [where core = demo_core and v = "''auto''" and w = demo_world]
  by (simp add: get_model_for_def demo_core_def demo_world_def demo_get_best_in_list_def
      demo_clean_name_def)

subsection \<open>The post-dry hook\<close>

lemma hook_success_opts:
  "a1111_grid_runner_post_dry_hook be g runner p s w = (Inr r, runner1, p1, w1) \<Longrightarrow>
   \<exists>t. temp runner = Some t \<and> temp runner1 = None
     \<and> code_former_weight (opts w1) = old_codeformer_weight t
     \<and> face_restoration_model (opts w1) = old_face_restorer t
     \<and> sd_vae (opts w1) = old_vae t
     \<and> sd_model_checkpoint (opts w1) = old_model t"
  unfolding a1111_grid_runner_post_dry_hook_def Let_def
  by (auto split: prod.splits sum.splits if_splits option.splits)

lemma hook_failure_opts:
  "a1111_grid_runner_post_dry_hook be g runner p s w = (Inl e, runner1, p1, w1) \<Longrightarrow>
   runner1 = runner \<and> opts w1 = snd (process_images be (fixed_seeds be p) (opts w))"
  unfolding a1111_grid_runner_post_dry_hook_def Let_def fixed_seeds_def
  by (auto split: prod.splits sum.splits if_splits option.splits)

text \<open>
  Claim C1, as the code has it. The write-back of the PRE_DRY snapshot is the last step
  of the post-dry hook. When the hook returns, the shared configuration is the one
  PRE_DRY saw and the snapshot is dropped. When the hook raises, nothing is written
  back: the shared configuration is as the render left it and the snapshot stays on the
  runner.
\<close>

theorem post_dry_restore_on_return:
  "case a1111_grid_runner_post_dry_hook be g (a1111_grid_runner_pre_dry_hook runner0 w0) p s w of
     (Inr r, runner1, p1, w1) \<Rightarrow> opts w1 = opts w0 \<and> temp runner1 = None
   | (Inl e, runner1, p1, w1) \<Rightarrow>
       opts w1 = snd (process_images be (fixed_seeds be p) (opts w))
       \<and> runner1 = a1111_grid_runner_pre_dry_hook runner0 w0"
proof (cases "a1111_grid_runner_post_dry_hook be g (a1111_grid_runner_pre_dry_hook runner0 w0) p s w")
  case (fields res runner1 p1 w1)
  show ?thesis
  proof (cases res)
    case (Inl e)
    with fields hook_failure_opts [of be g _ p s w e runner1 p1 w1] show ?thesis by simp
  next
    case (Inr r)
    with fields hook_success_opts [of be g "a1111_grid_runner_pre_dry_hook runner0 w0" p s w r runner1 p1 w1]
    show ?thesis
      by (auto simp: a1111_grid_runner_pre_dry_hook_def intro: shared_opts.equality)
  qed
qed

text \<open>
  The claim as stated fails. PRE_DRY sees checkpoint \<open>A\<close>, the coordinate's Model axis
  applies \<open>B\<close>, and the backend returns no image: the hook raises and the shared
  configuration still names \<open>B\<close>.
\<close>

theorem post_dry_restore_counterexample:
  "fst (a1111_grid_runner_post_dry_hook (demo_backend []) demo_grid
          (a1111_grid_runner_pre_dry_hook demo_runner demo_world) demo_request demo_call
          (apply_model demo_core ''B'' demo_world)) = Inl (zero_images_error demo_call)
   \<and> sd_model_checkpoint (opts (snd (snd (snd (a1111_grid_runner_post_dry_hook (demo_backend []) demo_grid
          (a1111_grid_runner_pre_dry_hook demo_runner demo_world) demo_request demo_call
          (apply_model demo_core ''B'' demo_world)))))) = Some ''B''
   \<and> sd_model_checkpoint (opts demo_world) = Some ''A''"
  by (simp add: a1111_grid_runner_post_dry_hook_def a1111_grid_runner_pre_dry_hook_def
      apply_model_def reload_model_weights_def get_model_for_def demo_backend_def demo_world_def
      demo_core_def demo_get_best_in_list_def demo_clean_name_def demo_opts_def Let_def)

text \<open>
  When the backend returns the images \<open>10\<close> and \<open>20\<close> instead, the hook returns and the
  checkpoint \<open>B\<close> that the Model axis applied is replaced by \<open>A\<close> again.
\<close>

theorem post_dry_restore_on_return_witness:
  "sd_model_checkpoint (opts (snd (snd (snd (a1111_grid_runner_post_dry_hook (demo_backend [10, 20])
      demo_grid (a1111_grid_runner_pre_dry_hook demo_runner demo_world) demo_request demo_call
      (apply_model demo_core ''B'' demo_world)))))) = Some ''A''
   \<and> sd_model_checkpoint (opts (apply_model demo_core ''B'' demo_world)) = Some ''B''"
  using post_dry_restore_on_return [where be = "demo_backend [10, 20]" and g = demo_grid
      and ?runner0.0 = demo_runner and ?w0.0 = demo_world and p = demo_request and s = demo_call
      and w = "apply_model demo_core ''B'' demo_world"]
  by (simp add: a1111_grid_runner_post_dry_hook_def a1111_grid_runner_pre_dry_hook_def
      apply_model_def reload_model_weights_def get_model_for_def demo_backend_def demo_world_def
      demo_core_def demo_get_best_in_list_def demo_clean_name_def demo_opts_def demo_request_def
      py_index_def py_setitem_def py_position_def Let_def)

text \<open>
  The example of claim C2: a run whose coordinate applies checkpoint \<open>B\<close> and whose
  render returns no image ends with the error and with checkpoint \<open>A\<close> active again.
\<close>

theorem whole_run_guard_restores_witness:
  "fst (with_SettingsFixer (demo_run_grid_gen [] demo_request demo_args None) demo_world)
     = Inl (zero_images_error demo_call)
   \<and> sd_model_checkpoint (opts (snd (with_SettingsFixer
        (demo_run_grid_gen [] demo_request demo_args None) demo_world))) = Some ''A''
   \<and> sd_model_checkpoint (opts (snd (demo_run_grid_gen [] demo_request demo_args None demo_world)))
     = Some ''B''"
  using whole_run_guard_restores [where body = "demo_run_grid_gen [] demo_request demo_args None"
      and w = demo_world]
  by (simp add: demo_run_grid_gen_def a1111_grid_runner_post_dry_hook_def
      a1111_grid_runner_pre_dry_hook_def apply_model_def reload_model_weights_def
      get_model_for_def demo_backend_def demo_world_def demo_core_def demo_get_best_in_list_def
      demo_clean_name_def demo_opts_def Let_def)

lemma renders_append: "renders (xs @ ys) = renders xs @ renders ys"
  by (induction xs rule: renders.induct) simp_all

lemma hook_renders_aux:
  "a1111_grid_runner_post_dry_hook be g runner p s w = (res, runner1, p1, w1) \<Longrightarrow>
   renders (calls w1) = renders (calls w) @ [fixed_seeds be p]"
  unfolding a1111_grid_runner_post_dry_hook_def Let_def fixed_seeds_def
  by (auto simp: renders_append split: prod.splits sum.splits if_splits option.splits)

lemma hook_renders:
  "renders (calls (snd (snd (snd (a1111_grid_runner_post_dry_hook be g runner p s w))))) =
     renders (calls w) @ [fixed_seeds be p]"
  using hook_renders_aux [of be g runner p s w]
  by (cases "a1111_grid_runner_post_dry_hook be g runner p s w") simp

lemma py_index_error: "py_index xs i = Inl e \<Longrightarrow> e = IndexError"
  by (simp add: py_index_def split: option.splits)

lemma py_setitem_error: "py_setitem xs i v = Inl e \<Longrightarrow> e = IndexError"
  by (simp add: py_setitem_def split: option.splits)

lemma zero_images_error_distinct:
  "zero_images_error s \<noteq> IndexError" "zero_images_error s \<noteq> AttributeError"
  "IndexError \<noteq> zero_images_error s" "AttributeError \<noteq> zero_images_error s"
  by (simp_all add: zero_images_error_def)

lemma hook_zero_images_aux:
  "a1111_grid_runner_post_dry_hook be g runner p s w = (res, runner1, p1, w1) \<Longrightarrow>
   process_images be (fixed_seeds be p) (opts w) = (Inr processed, o1) \<Longrightarrow>
   (res = Inl (zero_images_error s)) = (images processed = [])"
  unfolding a1111_grid_runner_post_dry_hook_def Let_def fixed_seeds_def
  by (auto simp: zero_images_error_distinct dest: py_index_error py_setitem_error
      split: prod.splits sum.splits if_splits option.splits)

lemma hook_zero_images:
  assumes "process_images be (fixed_seeds be p) (opts w) = (Inr processed, o1)"
  shows "(fst (a1111_grid_runner_post_dry_hook be g runner p s w) = Inl (zero_images_error s))
          = (images processed = [])"
  using hook_zero_images_aux [of be g runner p s w _ _ _ _ processed o1] assms
  by (cases "a1111_grid_runner_post_dry_hook be g runner p s w") simp

lemma run_request:
  "run be run_grid_gen p0 args w0 =
       run be (\<lambda>q. run_grid_gen (p0\<lparr>n_iter := 1, batch_size := 1, do_not_save_samples := True,
                 do_not_save_grid := True, seed := get_fixed_seed be (seed p0)\<rparr>)) p0 args w0"
proof -
  have eq: "seed (p0\<lparr>n_iter := 1, batch_size := 1, do_not_save_samples := True,
                 do_not_save_grid := True\<rparr>) = seed p0"
    by simp
  show ?thesis
    unfolding run_def Let_def eq by (rule refl)
qed

text \<open>
  Claim C6. When the render returns at least one image and the configured result index
  is not negative (the Use Result Index mode admits 0 to 500; an absent attribute is 0),
  the hook does not raise: it takes the image at the configured index, or the last image
  when the index is at or past the number of images, puts the finished image back at
  that place of the result, and schedules the save of that image.
\<close>

theorem result_index_clamped:
  assumes "process_images be (fixed_seeds be p) (opts w) = (Inr processed, o1)"
    and "images processed \<noteq> []"
    and "0 \<le> configured_result_index p"
    and "temp runner = Some t"
  shows "\<exists>r runner1 p1 w1.
           a1111_grid_runner_post_dry_hook be g runner p s w = (Inr r, runner1, p1, w1)
           \<and> images r = (images processed)
                [nat (min (configured_result_index p) (int (length (images processed)) - 1)) :=
                   finished_image be p (images processed !
                     nat (min (configured_result_index p) (int (length (images processed)) - 1)))]
           \<and> last (calls w1) = SaveImage
                (finished_image be p (images processed !
                     nat (min (configured_result_index p) (int (length (images processed)) - 1))))
                (filepath s) (create_infotext be (fixed_seeds be p) o1) (format g) (prompt p)
                (processed_seed processed)"
proof -
  let ?n = "int (length (images processed))"
  let ?i = "configured_result_index p"
  have c: "(case inf_grid_use_result_index p of None \<Rightarrow> 0 | Some i \<Rightarrow> i) = ?i"
    by (simp add: configured_result_index_def)
  have len: "\<not> length (images processed) < 1" using assms(2) by (cases "images processed") simp_all
  have pos: "\<not> ?i < 0" "\<not> ?n - 1 < 0" "?n - 1 < ?n" "0 \<le> ?n - 1" using assms(3) len by linarith+
  show ?thesis
  proof (cases "?n \<le> ?i")
    case True
    then have m: "min ?i (?n - 1) = ?n - 1" by linarith
    show ?thesis
      unfolding m a1111_grid_runner_post_dry_hook_def Let_def
      using assms(1,4) True pos len
      by (simp add: fixed_seeds_def c py_index_def py_setitem_def py_position_def finished_image_def Let_def)
  next
    case False
    then have m: "min ?i (?n - 1) = ?i" by linarith
    from False have lt: "?i < ?n" by linarith
    show ?thesis
      unfolding m a1111_grid_runner_post_dry_hook_def Let_def
      using assms(1,4) False lt pos len assms(3)
      by (simp add: fixed_seeds_def c py_index_def py_setitem_def py_position_def finished_image_def Let_def)
  qed
qed

text \<open>The example of claim C6: result index 5 with two images selects the image at index 1.\<close>

theorem result_index_clamped_witness:
  "last (calls (snd (snd (snd (a1111_grid_runner_post_dry_hook (demo_backend [10, 20]) demo_grid
      (a1111_grid_runner_pre_dry_hook demo_runner demo_world)
      (demo_request\<lparr>inf_grid_use_result_index := Some 5\<rparr>) demo_call demo_world))))) =
     SaveImage 20 ''out/cell'' ''a cat sits'' ''png'' ''a cat sits'' 42
   \<and> [10, 20 :: nat] ! nat (min 5 (int (length [10, 20 :: nat]) - 1)) = 20"
  using result_index_clamped [where be = "demo_backend [10, 20]"
      and p = "demo_request\<lparr>inf_grid_use_result_index := Some 5\<rparr>" and w = demo_world
      and processed = "\<lparr>images = [10, 20], processed_seed = 42\<rparr>" and ?o1.0 = demo_opts
      and runner = "a1111_grid_runner_pre_dry_hook demo_runner demo_world"
      and t = "\<lparr>old_codeformer_weight = 1 / 2, old_face_restorer = Some ''CodeFormer'',
                old_vae = Some ''Automatic'', old_model = Some ''A''\<rparr>"
      and g = demo_grid and s = demo_call]
  by (auto simp: demo_backend_def demo_request_def demo_world_def demo_opts_def demo_grid_def
      demo_call_def fixed_seeds_def configured_result_index_def finished_image_def
      a1111_grid_runner_pre_dry_hook_def)

text \<open>
  Claim C7. The post-dry hook asks the backend for exactly one render, of the request
  it was given with seed and variation seed passed through \<open>get_fixed_seed\<close> and with
  iteration count and batch size as given; whenever the backend returns, the hook raises
  its zero-images error exactly when no image came back; and the only request that
  \<open>run\<close> hands to the grid engine has iteration count and batch size 1 and a fixed seed.
\<close>

theorem render_invocation:
  "renders (calls (snd (snd (snd (a1111_grid_runner_post_dry_hook be g runner p s w))))) =
     renders (calls w) @ [fixed_seeds be p]
   \<and> n_iter (fixed_seeds be p) = n_iter p \<and> batch_size (fixed_seeds be p) = batch_size p
   \<and> seed (fixed_seeds be p) = get_fixed_seed be (seed p)
   \<and> subseed (fixed_seeds be p) = get_fixed_seed be (subseed p)
   \<and> (\<forall>processed o1.
        process_images be (fixed_seeds be p) (opts w) = (Inr processed, o1) \<longrightarrow>
        (fst (a1111_grid_runner_post_dry_hook be g runner p s w) = Inl (zero_images_error s))
          = (images processed = []))
   \<and> run be run_grid_gen p0 args w0 =
       run be (\<lambda>q. run_grid_gen (p0\<lparr>n_iter := 1, batch_size := 1, do_not_save_samples := True,
                 do_not_save_grid := True, seed := get_fixed_seed be (seed p0)\<rparr>)) p0 args w0"
proof (intro conjI allI impI)
  show "renders (calls (snd (snd (snd (a1111_grid_runner_post_dry_hook be g runner p s w))))) =
     renders (calls w) @ [fixed_seeds be p]"
    by (rule hook_renders)
next
  fix processed o1
  assume "process_images be (fixed_seeds be p) (opts w) = (Inr processed, o1)"
  then show "(fst (a1111_grid_runner_post_dry_hook be g runner p s w) = Inl (zero_images_error s))
          = (images processed = [])"
    by (rule hook_zero_images)
next
  show "run be run_grid_gen p0 args w0 =
       run be (\<lambda>q. run_grid_gen (p0\<lparr>n_iter := 1, batch_size := 1, do_not_save_samples := True,
                 do_not_save_grid := True, seed := get_fixed_seed be (seed p0)\<rparr>)) p0 args w0"
    by (rule run_request)
qed (simp_all add: fixed_seeds_def)

text \<open>
  On the example run the one render is of the request with iteration count 1, batch
  size 1 and both unset seeds fixed; and a render without images makes the hook raise.
\<close>

theorem render_invocation_witness:
  "renders (calls (snd (run (demo_backend [10, 20]) (demo_run_grid_gen [10, 20]) demo_request
      demo_args demo_world))) =
     [demo_request\<lparr>n_iter := 1, batch_size := 1, do_not_save_samples := True,
        do_not_save_grid := True, seed := 42, subseed := 42\<rparr>]
   \<and> fst (a1111_grid_runner_post_dry_hook (demo_backend []) demo_grid
          (a1111_grid_runner_pre_dry_hook demo_runner demo_world) demo_request demo_call demo_world)
       = Inl (zero_images_error demo_call)"
  using render_invocation [where be = "demo_backend []" and g = demo_grid
      and runner = "a1111_grid_runner_pre_dry_hook demo_runner demo_world" and p = demo_request
      and s = demo_call and w = demo_world and run_grid_gen = "demo_run_grid_gen [10, 20]"
      and ?p0.0 = demo_request and args = demo_args and ?w0.0 = demo_world]
  by (simp add: run_def with_SettingsFixer_def SettingsFixer_enter_def SettingsFixer_exit_def
      reload_model_weights_def reload_vae_weights_def try_init_def demo_run_grid_gen_def
      a1111_grid_runner_post_dry_hook_def a1111_grid_runner_pre_dry_hook_def apply_model_def
      get_model_for_def demo_backend_def demo_world_def demo_core_def demo_get_best_in_list_def
      demo_clean_name_def demo_opts_def demo_args_def demo_request_def demo_runner_def
      demo_call_def demo_grid_def fixed_seeds_def startswith_def py_index_def py_setitem_def
      py_position_def zero_images_error_def Let_def)

subsection \<open>Validation of the file names\<close>

text \<open>
  Claim C10. When the grid file name is empty or contains \<open>..\<close>, or the output path
  contains \<open>..\<close>, or the grid is created in the UI and the output path is empty, \<open>run\<close>
  raises, and the process state is the one at entry but for the script's own two
  globals: the grid engine was not run, and the shared configuration, the catalogs and
  the event log are untouched.
\<close>

theorem run_rejects_unacceptable_names:
  assumes "grid_file args = [] \<or> py_in ''..'' (grid_file args)
           \<or> (\<exists>path. output_file_path args = Some path \<and> py_in ''..'' path)
           \<or> (grid_file args = ''Create in UI''
               \<and> (output_file_path args = None \<or> output_file_path args = Some []))"
  shows "(\<exists>e. run be run_grid_gen p0 args w0 =
           (Inl e, (try_init w0)\<lparr>VALIDATE_REPLACE := validate_replace args\<rparr>))
         \<and> opts (snd (run be run_grid_gen p0 args w0)) = opts w0
         \<and> calls (snd (run be run_grid_gen p0 args w0)) = calls w0
         \<and> checkpoints_list (snd (run be run_grid_gen p0 args w0)) = checkpoints_list w0
         \<and> vae_dict (snd (run be run_grid_gen p0 args w0)) = vae_dict w0"
  using assms unfolding run_def Let_def
  by (auto simp: try_init_def split: option.splits)

text \<open>A grid file name that climbs out of the grid directory is refused.\<close>

theorem run_rejects_unacceptable_names_witness:
  "py_in ''..'' (grid_file (demo_args\<lparr>grid_file := ''../grid.yml''\<rparr>))
   \<and> fst (run (demo_backend [10, 20]) (demo_run_grid_gen [10, 20]) demo_request
        (demo_args\<lparr>grid_file := ''../grid.yml''\<rparr>) demo_world) \<noteq> Inr \<lparr>images = [], processed_seed = 0\<rparr>
   \<and> opts (snd (run (demo_backend [10, 20]) (demo_run_grid_gen [10, 20]) demo_request
        (demo_args\<lparr>grid_file := ''../grid.yml''\<rparr>) demo_world)) = demo_opts
   \<and> calls (snd (run (demo_backend [10, 20]) (demo_run_grid_gen [10, 20]) demo_request
        (demo_args\<lparr>grid_file := ''../grid.yml''\<rparr>) demo_world)) = []"
  using run_rejects_unacceptable_names [where args = "demo_args\<lparr>grid_file := ''../grid.yml''\<rparr>"
      and be = "demo_backend [10, 20]" and run_grid_gen = "demo_run_grid_gen [10, 20]"
      and ?p0.0 = demo_request and ?w0.0 = demo_world]
  by (auto simp: demo_args_def demo_world_def try_init_def startswith_def)

subsection \<open>Prompt replacement\<close>

lemma py_split_single: "\<not> py_in sep v \<Longrightarrow> py_split sep v = [v]"
  by (induction v) auto

lemma prompt_replace_single:
  assumes "\<not> py_in ''&&'' v"
  shows "apply_prompt_replace validate p (PyStr v) = replay validate [v] p"
proof (cases "CHR ''='' \<in> set v")
  case True
  then show ?thesis
    using assms
    by (simp add: py_split_single py_split_once_def substitution_of_def substitute_def Let_def)
next
  case False
  then show ?thesis
    using assms
    by (simp add: py_split_single py_split_once_def substitution_of_def Let_def)
qed

lemma replay_step:
  "replay validate (v # vs) p =
     (case replay validate [v] p of (Some e, p') \<Rightarrow> (Some e, p') | (None, p') \<Rightarrow> replay validate vs p')"
  by (auto split: option.splits prod.splits)

lemma apply_replacements_replay:
  "\<forall>v\<in>set vs. \<not> py_in ''&&'' v \<Longrightarrow>
   apply_replacements validate (map PyStr vs) p = replay validate vs p"
proof (induction vs arbitrary: p)
  case Nil
  show ?case by simp
next
  case (Cons v vs)
  have nv: "\<not> py_in ''&&'' v" using Cons.prems by simp
  have one: "apply_prompt_replace validate p (PyStr v) = replay validate [v] p"
    by (rule prompt_replace_single [OF nv])
  have rest: "\<And>q. apply_replacements validate (map PyStr vs) q = replay validate vs q"
    using Cons by simp
  have "apply_replacements validate (map PyStr (v # vs)) p =
      (case apply_prompt_replace validate p (PyStr v) of
         (Some e, p') \<Rightarrow> (Some e, p')
       | (None, p') \<Rightarrow> apply_replacements validate (map PyStr vs) p')"
    by (simp del: apply_prompt_replace.simps)
  also have "\<dots> =
      (case replay validate [v] p of
         (Some e, p') \<Rightarrow> (Some e, p')
       | (None, p') \<Rightarrow> replay validate vs p')"
    unfolding one rest by (rule refl)
  also have "\<dots> = replay validate (v # vs) p"
    by (rule replay_step [symmetric])
  finally show ?case .
qed

text \<open>
  Claim C4, as the code has it. A value of a prompt-replace axis is only recorded by the
  param-add hook: the hook returns true, appends the value to the coordinate's list and
  leaves the grid's request alone. The apply hook replays the recorded values in their
  order; for values without \<open>&&\<close> the replay is the one of the specification with its
  two checks: a value without \<open>=\<close>, and with validation on a match text that is in
  neither prompt, raise and end the replay; otherwise the match text is replaced
  literally by the replace text in the prompt and in the negative prompt.
\<close>

theorem prompt_replace_recorded_then_replayed:
  "(clean_mode core param = ''promptreplace'' \<longrightarrow>
      fst (a1111_grid_call_param_add_hook py core param val (g, grid_call)) = Inr True
      \<and> replacements (snd (snd (a1111_grid_call_param_add_hook py core param val (g, grid_call))))
          = replacements grid_call @ [val]
      \<and> initial_p (fst (snd (a1111_grid_call_param_add_hook py core param val (g, grid_call))))
          = initial_p g)
   \<and> (replacements grid_call = map PyStr vs \<and> (\<forall>v\<in>set vs. \<not> py_in ''&&'' v) \<longrightarrow>
      a1111_grid_call_apply_hook grid_call p dry w = replay (VALIDATE_REPLACE w) vs p)"
  by (simp add: a1111_grid_call_param_add_hook_def a1111_grid_call_apply_hook_def
      apply_replacements_replay Let_def)

text \<open>
  The example of claim C4: \<open>cat=dog\<close> then \<open>dog=fox\<close> turn \<open>a cat sits\<close> into
  \<open>a fox sits\<close>.
\<close>

theorem prompt_replace_recorded_then_replayed_witness:
  "a1111_grid_call_apply_hook (demo_call\<lparr>replacements := [PyStr ''cat=dog'', PyStr ''dog=fox'']\<rparr>)
     demo_request False demo_world = (None, demo_request\<lparr>prompt := ''a fox sits''\<rparr>)
   \<and> fst (a1111_grid_call_param_add_hook demo_python demo_core ''prompt replace'' (PyStr ''cat=dog'')
        (demo_grid, demo_call)) = Inr True"
  using prompt_replace_recorded_then_replayed [where core = demo_core and param = "''prompt replace''"
      and py = demo_python and val = "PyStr ''cat=dog''" and g = demo_grid
      and grid_call = "demo_call\<lparr>replacements := [PyStr ''cat=dog'', PyStr ''dog=fox'']\<rparr>"
      and vs = "[''cat=dog'', ''dog=fox'']" and p = demo_request and dry = False and w = demo_world]
  by (simp add: demo_call_def demo_request_def demo_world_def demo_core_def demo_clean_name_def
      demo_grid_def a1111_grid_call_param_add_hook_def
      substitution_of_def substitute_def py_strip_def py_isspace_def py_replace_def
      startswith_def Let_def)

text \<open>
  The claim as stated fails: not every recorded substitution is replayed. With validation
  on, \<open>dog=fox\<close> recorded before \<open>cat=dog\<close> raises on the prompt \<open>a cat sits\<close>, so
  \<open>cat=dog\<close> is never applied, where replaying both would give \<open>a dog sits\<close>.
\<close>

theorem prompt_replace_counterexample:
  "fst (a1111_grid_call_apply_hook (demo_call\<lparr>replacements := [PyStr ''dog=fox'', PyStr ''cat=dog'']\<rparr>)
     demo_request False demo_world) \<noteq> None
   \<and> prompt (snd (a1111_grid_call_apply_hook
        (demo_call\<lparr>replacements := [PyStr ''dog=fox'', PyStr ''cat=dog'']\<rparr>)
        demo_request False demo_world)) = ''a cat sits''
   \<and> prompt (replay_all [''dog=fox'', ''cat=dog''] demo_request) = ''a dog sits''"
  by (simp add: a1111_grid_call_apply_hook_def demo_call_def demo_request_def demo_world_def
      py_split_once_def substitution_of_def substitute_def py_strip_def py_isspace_def
      py_replace_def startswith_def Let_def)

subsection \<open>Cleaning of catalog-backed values\<close>

lemma py_in_prefix: "py_in sub (sub @ b)"
proof (cases "sub @ b")
  case Nil
  then show ?thesis by simp
next
  case (Cons c cs)
  have "startswith (sub @ b) sub" by (simp add: startswith_def)
  then show ?thesis unfolding Cons by simp
qed

lemma py_in_shift: "py_in sub s \<Longrightarrow> py_in sub (a @ s)"
  by (induction a) auto

lemma py_in_middle: "py_in sub (a @ sub @ b)"
  by (rule py_in_shift) (rule py_in_prefix)

lemma py_in_end: "py_in sub (a @ sub)"
  using py_in_middle [of sub a "[]"] by simp

text \<open>
  Claim C8, as the code has it. For the Model mode, a value that matches no checkpoint
  title is refused with a message that carries the parameter name, the value and the
  list of titles, and a value that matches is returned under its better file name. For
  the VAE mode, a value whose cleaned name is \<open>none\<close>, \<open>auto\<close> or \<open>automatic\<close> is
  returned as that cleaned name without a look at the catalog; any other value is
  refused when it matches no key of the VAE catalog, with a message that carries the
  parameter name, the value and the list of keys, and returned under its better file
  name when it matches.
\<close>

theorem clean_catalog_modes:
  "(get_model_for core w v = None \<longrightarrow>
      (\<exists>msg. clean_model py core w p v = Inl (RuntimeError msg)
         \<and> py_in p msg \<and> py_in v msg \<and> py_in (repr_list py (checkpoints_list w)) msg))
   \<and> (\<forall>m. get_model_for core w v = Some m \<longrightarrow>
         clean_model py core w p v = Inr (choose_better_file_name core v m))
   \<and> (clean_name core v \<in> set [''none'', ''auto'', ''automatic''] \<longrightarrow>
         clean_vae py core w p v = Inr (clean_name core v))
   \<and> (clean_name core v \<notin> set [''none'', ''auto'', ''automatic'']
        \<and> get_vae_for core w (clean_name core v) = None \<longrightarrow>
      (\<exists>msg. clean_vae py core w p v = Inl (RuntimeError msg)
         \<and> py_in p msg \<and> py_in v msg \<and> py_in (repr_list py (vae_dict w)) msg))
   \<and> (\<forall>a. clean_name core v \<notin> set [''none'', ''auto'', ''automatic'']
        \<and> get_vae_for core w (clean_name core v) = Some a \<longrightarrow>
         clean_vae py core w p v = Inr (choose_better_file_name core v a))"
proof (intro conjI allI impI)
  assume "get_model_for core w v = None"
  then have "clean_model py core w p v = Inl (RuntimeError
      (''Invalid parameter '' @ [CHR 0x27] @ p @ [CHR 0x27] @ '' as ''
        @ [CHR 0x27] @ v @ [CHR 0x27] @ '': model name unrecognized - valid ''
        @ repr_list py (checkpoints_list w)))"
    by (simp add: clean_model_def)
  moreover have "py_in p (''Invalid parameter '' @ [CHR 0x27] @ p @ [CHR 0x27] @ '' as ''
        @ [CHR 0x27] @ v @ [CHR 0x27] @ '': model name unrecognized - valid ''
        @ repr_list py (checkpoints_list w))"
    using py_in_middle [of p "''Invalid parameter '' @ [CHR 0x27]"] by simp
  moreover have "py_in v (''Invalid parameter '' @ [CHR 0x27] @ p @ [CHR 0x27] @ '' as ''
        @ [CHR 0x27] @ v @ [CHR 0x27] @ '': model name unrecognized - valid ''
        @ repr_list py (checkpoints_list w))"
    using py_in_middle [of v "''Invalid parameter '' @ [CHR 0x27] @ p @ [CHR 0x27] @ '' as '' @ [CHR 0x27]"]
    by simp
  moreover have "py_in (repr_list py (checkpoints_list w))
       (''Invalid parameter '' @ [CHR 0x27] @ p @ [CHR 0x27] @ '' as ''
        @ [CHR 0x27] @ v @ [CHR 0x27] @ '': model name unrecognized - valid ''
        @ repr_list py (checkpoints_list w))"
    using py_in_end [of "repr_list py (checkpoints_list w)"
        "''Invalid parameter '' @ [CHR 0x27] @ p @ [CHR 0x27] @ '' as ''
        @ [CHR 0x27] @ v @ [CHR 0x27] @ '': model name unrecognized - valid ''"]
    by simp
  ultimately show "\<exists>msg. clean_model py core w p v = Inl (RuntimeError msg)
         \<and> py_in p msg \<and> py_in v msg \<and> py_in (repr_list py (checkpoints_list w)) msg"
    by blast
next
  fix m assume "get_model_for core w v = Some m"
  then show "clean_model py core w p v = Inr (choose_better_file_name core v m)"
    by (simp add: clean_model_def)
next
  assume "clean_name core v \<in> set [''none'', ''auto'', ''automatic'']"
  then show "clean_vae py core w p v = Inr (clean_name core v)"
    by (simp add: clean_vae_def Let_def)
next
  assume h: "clean_name core v \<notin> set [''none'', ''auto'', ''automatic'']
        \<and> get_vae_for core w (clean_name core v) = None"
  then have "clean_vae py core w p v = Inl (RuntimeError
      (''Invalid parameter '' @ [CHR 0x27] @ p @ [CHR 0x27] @ '' as ''
        @ [CHR 0x27] @ v @ [CHR 0x27] @ '': VAE name unrecognized - valid: ''
        @ repr_list py (vae_dict w)))"
    by (simp add: clean_vae_def Let_def)
  moreover have "py_in p (''Invalid parameter '' @ [CHR 0x27] @ p @ [CHR 0x27] @ '' as ''
        @ [CHR 0x27] @ v @ [CHR 0x27] @ '': VAE name unrecognized - valid: ''
        @ repr_list py (vae_dict w))"
    using py_in_middle [of p "''Invalid parameter '' @ [CHR 0x27]"] by simp
  moreover have "py_in v (''Invalid parameter '' @ [CHR 0x27] @ p @ [CHR 0x27] @ '' as ''
        @ [CHR 0x27] @ v @ [CHR 0x27] @ '': VAE name unrecognized - valid: ''
        @ repr_list py (vae_dict w))"
    using py_in_middle [of v "''Invalid parameter '' @ [CHR 0x27] @ p @ [CHR 0x27] @ '' as '' @ [CHR 0x27]"]
    by simp
  moreover have "py_in (repr_list py (vae_dict w))
       (''Invalid parameter '' @ [CHR 0x27] @ p @ [CHR 0x27] @ '' as ''
        @ [CHR 0x27] @ v @ [CHR 0x27] @ '': VAE name unrecognized - valid: ''
        @ repr_list py (vae_dict w))"
    using py_in_end [of "repr_list py (vae_dict w)"
        "''Invalid parameter '' @ [CHR 0x27] @ p @ [CHR 0x27] @ '' as ''
        @ [CHR 0x27] @ v @ [CHR 0x27] @ '': VAE name unrecognized - valid: ''"]
    by simp
  ultimately show "\<exists>msg. clean_vae py core w p v = Inl (RuntimeError msg)
         \<and> py_in p msg \<and> py_in v msg \<and> py_in (repr_list py (vae_dict w)) msg"
    by blast
next
  fix a assume "clean_name core v \<notin> set [''none'', ''auto'', ''automatic'']
        \<and> get_vae_for core w (clean_name core v) = Some a"
  then show "clean_vae py core w p v = Inr (choose_better_file_name core v a)"
    by (simp add: clean_vae_def Let_def)
qed

text \<open>Checkpoints \<open>A\<close> and \<open>B\<close>, and one VAE: values that match and values that do not.\<close>

theorem clean_catalog_modes_witness:
  "clean_model demo_python demo_core demo_world ''Model'' ''B'' = Inr ''B''
   \<and> (\<exists>msg. clean_model demo_python demo_core demo_world ''Model'' ''Z'' = Inl (RuntimeError msg)
         \<and> py_in ''Model'' msg \<and> py_in ''Z'' msg
         \<and> py_in (repr_list demo_python [''A'', ''B'']) msg)
   \<and> clean_vae demo_python demo_core demo_world ''VAE'' ''auto'' = Inr ''auto''
   \<and> (\<exists>msg. clean_vae demo_python demo_core (demo_world\<lparr>vae_dict := [''vae-ft-mse'']\<rparr>) ''VAE'' ''zz''
             = Inl (RuntimeError msg)
         \<and> py_in ''VAE'' msg \<and> py_in ''zz'' msg
         \<and> py_in (repr_list demo_python [''vae-ft-mse'']) msg)
   \<and> clean_vae demo_python demo_core (demo_world\<lparr>vae_dict := [''vae-ft-mse'']\<rparr>) ''VAE'' ''mse''
       = Inr ''vae-ft-mse''"
  using clean_catalog_modes [where core = demo_core and w = demo_world and v = "''B''"
      and py = demo_python and p = "''Model''"]
    clean_catalog_modes [where core = demo_core and w = demo_world and v = "''Z''"
      and py = demo_python and p = "''Model''"]
    clean_catalog_modes [where core = demo_core and w = demo_world and v = "''auto''"
      and py = demo_python and p = "''VAE''"]
    clean_catalog_modes [where core = demo_core and w = "demo_world\<lparr>vae_dict := [''vae-ft-mse'']\<rparr>"
      and v = "''zz''" and py = demo_python and p = "''VAE''"]
    clean_catalog_modes [where core = demo_core and w = "demo_world\<lparr>vae_dict := [''vae-ft-mse'']\<rparr>"
      and v = "''mse''" and py = demo_python and p = "''VAE''"]
  by (simp add: get_model_for_def get_vae_for_def demo_core_def demo_world_def
      demo_get_best_in_list_def demo_clean_name_def startswith_def)

text \<open>
  The claim as stated fails for the reserved names: with an empty VAE catalog, \<open>none\<close>
  matches no entry, and \<open>clean_vae\<close> returns it.
\<close>

theorem clean_vae_reserved_counterexample:
  "clean_vae demo_python demo_core demo_world ''VAE'' ''none'' = Inr ''none''
   \<and> get_vae_for demo_core demo_world ''none'' = None
   \<and> vae_dict demo_world = []"
  by (simp add: clean_vae_def get_vae_for_def demo_core_def demo_world_def
      demo_get_best_in_list_def demo_clean_name_def)

subsection \<open>The grid's minimum dimensions\<close>

text \<open>
  Claim C5 does not hold of the code at a running minimum of 0. On a grid whose request
  is 512 wide, an Out Width value of 0 (the mode admits it) brings the minimum width to
  0, and a following Width value of 512 raises it to 512: \<open>min_width or 99999\<close> takes
  the 0 for unset.
\<close>

theorem min_width_grows_after_zero:
  "min_width (fst (snd (a1111_grid_call_param_add_hook demo_python demo_core ''out width'' (PyInt 0)
      (demo_grid, demo_call)))) = Some 0
   \<and> min_width (fst (snd (a1111_grid_call_param_add_hook demo_python demo_core ''width'' (PyInt 512)
      (fst (snd (a1111_grid_call_param_add_hook demo_python demo_core ''out width'' (PyInt 0)
         (demo_grid, demo_call))), demo_call)))) = Some 512"
  by (simp add: a1111_grid_call_param_add_hook_def demo_core_def demo_clean_name_def demo_grid_def
      demo_request_def or_99999_def Let_def)

text \<open>
  Away from 0 the minimum behaves as claim C5 says: whatever axis value is added, a
  minimum width that is set and not 0 stays set and does not grow.
\<close>

lemma min_width_nonincreasing_nonzero:
  assumes "min_width g = Some m" and "m \<noteq> 0"
  shows "\<exists>m'. min_width (fst (snd (a1111_grid_call_param_add_hook py core param val (g, grid_call))))
            = Some m' \<and> m' \<le> m"
  using assms
  by (auto simp: a1111_grid_call_param_add_hook_def or_99999_def Let_def split: sum.splits)

end
